theory Spec2Isabelle
  imports Main
begin

section \<open>Text\<close>

text \<open>
  A Python \<open>str\<close> is a \<^typ>\<open>string\<close>; one \<^typ>\<open>char\<close> stands for one code point in the
  range U+0000 to U+00FF, read with \<^const>\<open>of_char\<close>. In that range the decimal digits
  that the pattern \<open>\d\<close> matches are \<open>0\<close> to \<open>9\<close>, and the characters that
  \<open>str.strip\<close> removes are the ones listed in \<open>is_space\<close>. \<open>int\<close> is the unbounded
  conversion of the language; the interpreter's configurable cap on the number of
  digits it converts is not part of the model.
\<close>

text \<open>
  The exceptions of the program. \<open>RequestException\<close> is what \<open>requests.get\<close> raises
  (a timeout, a transport error) with its message; an \<open>HTTPException\<close> carries its
  status code and its detail, and the detail names what the message of the source quotes.
\<close>

datatype exn =
    ValueError
  | TypeError
  | AttributeError
  | RequestException string
  | HTTPException nat detail
and detail =
    Source_returned_status nat
  | Could_not_find_gold_table
  | Failed_to_fetch_source exn

definition is_digit :: "char \<Rightarrow> bool" where
  "is_digit c = (48 \<le> (of_char c :: nat) \<and> (of_char c :: nat) \<le> 57)"

definition digit_val :: "char \<Rightarrow> int" where
  "digit_val c = int (of_char c) - 48"

definition is_space :: "char \<Rightarrow> bool" where
  "is_space c =
     (let n = (of_char c :: nat)
      in (9 \<le> n \<and> n \<le> 13) \<or> (28 \<le> n \<and> n \<le> 32) \<or> n = 133 \<or> n = 160)"

text \<open>\<open>str.strip()\<close>: leading and trailing whitespace removed.\<close>

definition strip :: "string \<Rightarrow> string" where
  "strip s = rev (dropWhile is_space (rev (dropWhile is_space s)))"

text \<open>\<open>sep.join(parts)\<close>.\<close>

fun join :: "string \<Rightarrow> string list \<Rightarrow> string" where
  "join sep [] = []"
| "join sep [p] = p"
| "join sep (p # q # ps) = p @ sep @ join sep (q # ps)"

text \<open>The code point U+00A0 (no-break space), and the replacement of each by a space.\<close>

definition nbsp :: char where
  "nbsp = char_of (160 :: nat)"

definition replace_nbsp :: "string \<Rightarrow> string" where
  "replace_nbsp s = map (\<lambda>c. if c = nbsp then CHR '' '' else c) s"

text \<open>
  \<open>int(s)\<close> on the strings the program passes to it. A string that is empty or holds a
  character that is not a digit raises \<open>ValueError\<close> here (Python accepts a few more
  strings, such as a sign or surrounding blanks, so the model raises at least as often
  as the program).
\<close>

definition decimal :: "string \<Rightarrow> int" where
  "decimal s = foldl (\<lambda>a c. 10 * a + digit_val c) 0 s"

definition py_int :: "string \<Rightarrow> exn + int" where
  "py_int s = (if s \<noteq> [] \<and> list_all is_digit s then Inr (decimal s) else Inl ValueError)"

text \<open>
  \<open>re.findall(r"\d+", s)\<close>: the maximal runs of digits, left to right.
\<close>

function digit_runs :: "string \<Rightarrow> string list" where
  "digit_runs [] = []"
| "digit_runs (c # cs) =
     (if is_digit c
      then takeWhile is_digit (c # cs) # digit_runs (dropWhile is_digit cs)
      else digit_runs cs)"
  by pat_completeness auto
termination
proof (relation "measure length")
  fix c :: char and cs :: string
  have "length (dropWhile is_digit cs) \<le> length cs"
    by (rule length_dropWhile_le)
  then show "(dropWhile is_digit cs, c # cs) \<in> measure length"
    by simp
qed simp_all

text \<open>
  \<open>re.search(r"(\d+)", s)\<close>: the first maximal run of digits (group 1 of the match), or
  \<open>None\<close>.
\<close>

definition search_digits :: "string \<Rightarrow> string option" where
  "search_digits s =
     (let r = dropWhile (\<lambda>c. \<not> is_digit c) s
      in if r = [] then None else Some (takeWhile is_digit r))"

text \<open>
  \<open>to_lower\<close> is the simple lower-case mapping on U+0000 to U+00FF. Under \<open>re.I\<close> a
  lower-case literal of a pattern matches a character whose lower case it is.
\<close>

definition to_lower :: "char \<Rightarrow> char" where
  "to_lower c =
     (let n = (of_char c :: nat)
      in if (65 \<le> n \<and> n \<le> 90) \<or> (192 \<le> n \<and> n \<le> 222 \<and> n \<noteq> 215)
         then char_of (n + 32) else c)"

fun contains :: "string \<Rightarrow> string \<Rightarrow> bool" where
  "contains p [] = (p = [])"
| "contains p (c # cs) = (take (length p) (c # cs) = p \<or> contains p cs)"

definition search_ci :: "string \<Rightarrow> string \<Rightarrow> bool" where
  "search_ci p s = contains p (map to_lower s)"

text \<open>
  The alternatives of the pattern \<open>og'ir|og\<dots>ir|ogir|sotish|narx\<close> of \<open>parse_table\<close>. The
  second alternative of the source has U+02BB between \<open>og\<close> and \<open>ir\<close>; no text of the
  modelled range holds that code point, so the alternative never matches here and has no
  entry in the list.
\<close>

definition header_keywords :: "string list" where
  "header_keywords = [''og'' @ [CHR 0x27] @ ''ir'', ''ogir'', ''sotish'', ''narx'']"

definition is_header_text :: "string \<Rightarrow> bool" where
  "is_header_text s = list_ex (\<lambda>p. search_ci p s) header_keywords"

text \<open>
  The date pattern \<open>(\d{1,2}\.\d{1,2}\.\d{4})\<close>. \<open>digits_then n s\<close> reads exactly \<open>n\<close>
  digits, \<open>dot_then\<close> a full stop; both give the rest of the text. The quantifier
  \<open>{1,2}\<close> is greedy: two digits are tried before one. \<open>match_date\<close> gives the length
  of the match at the start of the text, \<open>search_date\<close> the leftmost match.
\<close>

definition digits_then :: "nat \<Rightarrow> string \<Rightarrow> string option" where
  "digits_then n s =
     (if n \<le> length s \<and> list_all is_digit (take n s) then Some (drop n s) else None)"

definition dot_then :: "string \<Rightarrow> string option" where
  "dot_then s = (case s of [] \<Rightarrow> None | c # r \<Rightarrow> if c = CHR ''.'' then Some r else None)"

definition first_some :: "'a option \<Rightarrow> 'a option \<Rightarrow> 'a option" where
  "first_some a b = (case a of Some x \<Rightarrow> Some x | None \<Rightarrow> b)"

definition year_then :: "string \<Rightarrow> string option" where
  "year_then s = digits_then 4 s"

definition month_then :: "string \<Rightarrow> string option" where
  "month_then s =
     first_some
       (Option.bind (Option.bind (digits_then 2 s) dot_then) year_then)
       (Option.bind (Option.bind (digits_then 1 s) dot_then) year_then)"

definition day_then :: "string \<Rightarrow> string option" where
  "day_then s =
     first_some
       (Option.bind (Option.bind (digits_then 2 s) dot_then) month_then)
       (Option.bind (Option.bind (digits_then 1 s) dot_then) month_then)"

definition match_date :: "string \<Rightarrow> string option" where
  "match_date s =
     (case day_then s of None \<Rightarrow> None | Some r \<Rightarrow> Some (take (length s - length r) s))"

fun search_date :: "string \<Rightarrow> string option" where
  "search_date [] = None"
| "search_date (c # cs) = first_some (match_date (c # cs)) (search_date cs)"

section \<open>Parsed documents\<close>

text \<open>
  \<open>BeautifulSoup(html, "html.parser")\<close> turns the page into a tree, and \<open>parse_table\<close>
  only works on that tree; the document is its input here, as the list of its
  top-level nodes. An element has a tag name, the tokens of its \<open>class\<close> attribute (none
  when the attribute is missing) and its children; no other attribute is read.
  \<open>Comment\<close> stands for a string node that is not plain text: \<open>find_all(text=True)\<close>
  lists it, \<open>get_text\<close> leaves it out.
\<close>

datatype node =
    Text string
  | Comment string
  | Element string "string list" "node list"

fun is_tag :: "string \<Rightarrow> node \<Rightarrow> bool" where
  "is_tag t (Element name cs ch) = (name = t)"
| "is_tag t (Text s) = False"
| "is_tag t (Comment s) = False"

fun classes :: "node \<Rightarrow> string list" where
  "classes (Element name cs ch) = cs"
| "classes (Text s) = []"
| "classes (Comment s) = []"

fun children :: "node \<Rightarrow> node list" where
  "children (Element name cs ch) = ch"
| "children (Text s) = []"
| "children (Comment s) = []"

text \<open>
  The elements of a forest in document order, each with what the selectors ask about its
  place: whether one of its ancestors is a \<open>tbody\<close>, and whether an \<open>h1\<close> is among its
  earlier siblings.
\<close>

record placed =
  under_tbody :: bool
  after_h1 :: bool
  elem :: node

fun elements :: "bool \<Rightarrow> bool \<Rightarrow> node \<Rightarrow> placed list"
  and elements_list :: "bool \<Rightarrow> bool \<Rightarrow> node list \<Rightarrow> placed list" where
  "elements tb h1 (Text s) = []"
| "elements tb h1 (Comment s) = []"
| "elements tb h1 (Element name cs ch) =
     \<lparr>under_tbody = tb, after_h1 = h1, elem = Element name cs ch\<rparr>
       # elements_list (tb \<or> name = ''tbody'') False ch"
| "elements_list tb h1 [] = []"
| "elements_list tb h1 (n # ns) =
     elements tb h1 n @ elements_list tb (h1 \<or> is_tag ''h1'' n) ns"

text \<open>The string nodes below a node, in document order: all of them, and the plain text.\<close>

fun all_strings :: "node \<Rightarrow> string list"
  and all_strings_list :: "node list \<Rightarrow> string list" where
  "all_strings (Text s) = [s]"
| "all_strings (Comment s) = [s]"
| "all_strings (Element name cs ch) = all_strings_list ch"
| "all_strings_list [] = []"
| "all_strings_list (n # ns) = all_strings n @ all_strings_list ns"

fun text_strings :: "node \<Rightarrow> string list"
  and text_strings_list :: "node list \<Rightarrow> string list" where
  "text_strings (Text s) = [s]"
| "text_strings (Comment s) = []"
| "text_strings (Element name cs ch) = text_strings_list ch"
| "text_strings_list [] = []"
| "text_strings_list (n # ns) = text_strings n @ text_strings_list ns"

text \<open>
  \<open>tag.get_text(" ", strip=True)\<close>: every text string below the tag is stripped, the
  empty ones are dropped and the rest joined by a space.
\<close>

definition get_text :: "node \<Rightarrow> string" where
  "get_text n = join '' '' (filter (\<lambda>s. s \<noteq> []) (map strip (text_strings n)))"

text \<open>
  \<open>soup.select_one("h1 ~ table.table-bordered")\<close>: the first \<open>table\<close> in document order
  that has the class token \<open>table-bordered\<close> and an \<open>h1\<close> among its earlier siblings.
\<close>

definition select_one :: "node list \<Rightarrow> placed option" where
  "select_one doc =
     List.find
       (\<lambda>p. is_tag ''table'' (elem p) \<and> ''table-bordered'' \<in> set (classes (elem p))
            \<and> after_h1 p)
       (elements_list False False doc)"

text \<open>
  \<open>soup.find("table", class_=lambda c: c and "table-bordered" in c)\<close>: the first
  \<open>table\<close> whose class passes the function. The library calls the function on each
  class token and then on the tokens joined by spaces, and on \<open>None\<close> when the attribute
  is missing.
\<close>

definition class_lambda :: "string \<Rightarrow> bool" where
  "class_lambda c = (c \<noteq> [] \<and> contains ''table-bordered'' c)"

definition class_matches :: "string list \<Rightarrow> bool" where
  "class_matches cs = (list_ex class_lambda cs \<or> class_lambda (join '' '' cs))"

definition find_table :: "node list \<Rightarrow> placed option" where
  "find_table doc =
     List.find
       (\<lambda>p. is_tag ''table'' (elem p) \<and> class_matches (classes (elem p)))
       (elements_list False False doc)"

text \<open>
  \<open>table.select("tbody tr")\<close>: the \<open>tr\<close> elements below the table that have a
  \<open>tbody\<close> ancestor. The selector is matched in the whole document, so an ancestor
  of the table counts as well.
\<close>

definition select_rows :: "placed \<Rightarrow> node list" where
  "select_rows table =
     map elem
       (filter (\<lambda>p. is_tag ''tr'' (elem p) \<and> under_tbody p)
          (elements_list (under_tbody table) False (children (elem table))))"

text \<open>\<open>tr.find_all("td")\<close>: the \<open>td\<close> elements below the row, at any depth.\<close>

definition find_all_td :: "node \<Rightarrow> node list" where
  "find_all_td tr =
     map elem (filter (\<lambda>p. is_tag ''td'' (elem p)) (elements_list False False (children tr)))"

section \<open>The extractor\<close>

record price_entry =
  weight_g :: int
  price_uzs :: int
  price_str :: string

definition normalize_digits :: "string \<Rightarrow> exn + int" where
  "normalize_digits s =
     (let digits = digit_runs (replace_nbsp s)
      in if digits \<noteq> [] then py_int (concat digits) else Inr 0)"

text \<open>
  The loop of \<open>parse_table\<close> that looks for the date: the first string of the table in
  which the date pattern matches gives \<open>last_updated\<close>.
\<close>

fun first_date :: "string list \<Rightarrow> string option" where
  "first_date [] = None"
| "first_date (s # ss) = first_some (search_date s) (first_date ss)"

text \<open>
  One turn of the loop over the rows: \<open>Inr None\<close> when the row is skipped by a
  \<open>continue\<close>, \<open>Inr (Some e)\<close> when \<open>e\<close> is appended, \<open>Inl\<close> when a conversion raises.
\<close>

definition parse_row :: "node \<Rightarrow> exn + price_entry option" where
  "parse_row tr =
     (case find_all_td tr of
        [] \<Rightarrow> Inr None
      | td0 # rest \<Rightarrow>
          (let first_text = get_text td0
           in if is_header_text first_text then Inr None
              else (case search_digits first_text of
                      None \<Rightarrow> Inr None
                    | Some g \<Rightarrow>
                        (case py_int g of
                           Inl e \<Rightarrow> Inl e
                         | Inr w \<Rightarrow>
                             (let price_text = (case rest of [] \<Rightarrow> [] | td1 # _ \<Rightarrow> get_text td1)
                              in case normalize_digits price_text of
                                   Inl e \<Rightarrow> Inl e
                                 | Inr p \<Rightarrow>
                                     Inr (Some \<lparr>weight_g = w, price_uzs = p,
                                                price_str = price_text\<rparr>))))))"

fun collect_rows :: "node list \<Rightarrow> exn + price_entry list" where
  "collect_rows [] = Inr []"
| "collect_rows (tr # trs) =
     (case parse_row tr of
        Inl e \<Rightarrow> Inl e
      | Inr r \<Rightarrow>
          (case collect_rows trs of
             Inl e \<Rightarrow> Inl e
           | Inr rows \<Rightarrow> Inr (case r of None \<Rightarrow> rows | Some entry \<Rightarrow> entry # rows)))"

text \<open>
  \<open>parse_table\<close> returns \<open>(None, None)\<close> when no table is found: \<open>Inr None\<close> here.
  \<open>sorted(rows, key=...)\<close> is a stable sort, as \<^const>\<open>sort_key\<close> is.
\<close>

definition parse_table :: "node list \<Rightarrow> exn + (string option \<times> price_entry list) option" where
  "parse_table doc =
     (case first_some (select_one doc) (find_table doc) of
        None \<Rightarrow> Inr None
      | Some table \<Rightarrow>
          (let last_updated = first_date (all_strings (elem table))
           in case collect_rows (select_rows table) of
                Inl e \<Rightarrow> Inl e
              | Inr rows \<Rightarrow> Inr (Some (last_updated, sort_key weight_g rows))))"

section \<open>The fetcher\<close>

text \<open>
  Time is the reading of \<open>datetime.now(UZB_TZ)\<close>, an instant counted in microseconds. A
  \<open>datetime\<close> is aware (it has an offset) or naive; aware ones compare by their instant,
  and comparing an aware with a naive one raises \<open>TypeError\<close>.
\<close>

datatype datetime = Aware int | Naive int

fun dt_less :: "datetime \<Rightarrow> datetime \<Rightarrow> exn + bool" where
  "dt_less (Aware a) (Aware b) = Inr (a < b)"
| "dt_less (Naive a) (Naive b) = Inr (a < b)"
| "dt_less (Aware a) (Naive b) = Inl TypeError"
| "dt_less (Naive a) (Aware b) = Inl TypeError"

fun dt_add :: "datetime \<Rightarrow> int \<Rightarrow> datetime" where
  "dt_add (Aware a) d = Aware (a + d)"
| "dt_add (Naive a) d = Naive (a + d)"

text \<open>
  A value of a JSON object that is read as a time. \<open>Iso d\<close> is the ISO 8601 text of
  \<open>d\<close>, which \<open>d.isoformat()\<close> writes and \<open>datetime.fromisoformat\<close> reads back;
  \<open>No_value\<close> is what \<open>dict.get\<close> gives for a missing key; \<open>Not_iso\<close> is any other
  value, which \<open>fromisoformat\<close> rejects.
\<close>

datatype json_time = No_value | Not_iso | Iso datetime

definition isoformat :: "datetime \<Rightarrow> json_time" where
  "isoformat d = Iso d"

fun fromisoformat :: "json_time \<Rightarrow> exn + datetime" where
  "fromisoformat (Iso d) = Inr d"
| "fromisoformat No_value = Inl TypeError"
| "fromisoformat Not_iso = Inl ValueError"

text \<open>
  \<open>CBU_URL\<close> is the default of the source; the environment may set another address, and
  nothing below depends on its value.
\<close>

definition CBU_URL :: string where
  "CBU_URL = ''https://cbu.uz/uz/banknotes-coins/gold-bars/prices/''"

definition CACHE_TTL :: int where
  "CACHE_TTL = 24 * 60 * 60 * 1000000"

text \<open>The dict that \<open>fetch_and_parse\<close> returns.\<close>

record snapshot =
  source :: string
  last_updated :: "string option"
  retrieved_at :: json_time
  prices :: "price_entry list"

text \<open>
  What \<open>requests.get\<close> does: it raises, or it returns a response with a status code and
  a text, the text given as the document it parses to.
\<close>

datatype fetch_outcome =
    Raises string
  | Replies nat "node list"

definition fetch_and_parse :: "fetch_outcome \<Rightarrow> int \<Rightarrow> exn + snapshot" where
  "fetch_and_parse outcome now =
     (case outcome of
        Raises msg \<Rightarrow> Inl (RequestException msg)
      | Replies status_code doc \<Rightarrow>
          if status_code \<noteq> 200
          then Inl (HTTPException 502 (Source_returned_status status_code))
          else (case parse_table doc of
                  Inl e \<Rightarrow> Inl e
                | Inr None \<Rightarrow> Inl (HTTPException 500 Could_not_find_gold_table)
                | Inr (Some (date, rows)) \<Rightarrow>
                    Inr \<lparr>source = CBU_URL,
                         last_updated =
                           (case date of
                              None \<Rightarrow> None
                            | Some d \<Rightarrow> if d = [] then None else Some d),
                         retrieved_at = isoformat (Aware now),
                         prices = rows\<rparr>))"

section \<open>The cache store\<close>

text \<open>
  The dict \<open>{**result, "expires_at": ...}\<close> that is written to the cache file: the keys
  of the result and the key \<open>expires_at\<close>. The file is missing, or holds text that
  \<open>json.load\<close> rejects, or a JSON value that is no object, or an object, which is read
  as such a dict.
\<close>

record cache_data =
  content :: snapshot
  expires_at :: json_time

datatype cache_file =
    No_file
  | Not_json
  | Not_object
  | Json_object cache_data

text \<open>
  The body of the \<open>try\<close> of \<open>load_cache\<close>: \<open>json.load\<close> raises on text that is not
  JSON, \<open>data.get\<close> raises on a value that is no dict, and \<open>fromisoformat\<close> and the
  comparison raise as above.
\<close>

fun json_load :: "cache_file \<Rightarrow> exn + cache_data" where
  "json_load (Json_object data) = Inr data"
| "json_load Not_object = Inl AttributeError"
| "json_load Not_json = Inl ValueError"
| "json_load No_file = Inl ValueError"

definition read_cache :: "int \<Rightarrow> cache_file \<Rightarrow> exn + cache_data option" where
  "read_cache now file =
     (case json_load file of
        Inl e \<Rightarrow> Inl e
      | Inr data \<Rightarrow>
          (case fromisoformat (expires_at data) of
             Inl e \<Rightarrow> Inl e
           | Inr expires \<Rightarrow>
               (case dt_less (Aware now) expires of
                  Inl e \<Rightarrow> Inl e
                | Inr valid \<Rightarrow> Inr (if valid then Some data else None))))"

definition load_cache :: "int \<Rightarrow> cache_file \<Rightarrow> cache_data option" where
  "load_cache now file =
     (if file = No_file then None
      else (case read_cache now file of Inl e \<Rightarrow> None | Inr r \<Rightarrow> r))"

definition save_cache :: "snapshot \<Rightarrow> int \<Rightarrow> datetime \<times> cache_file" where
  "save_cache result now =
     (let expires = dt_add (Aware now) CACHE_TTL;
          data = \<lparr>content = result, expires_at = isoformat expires\<rparr>
      in (expires, Json_object data))"

definition clear_cache :: "cache_file \<Rightarrow> cache_file" where
  "clear_cache file = (if file \<noteq> No_file then No_file else file)"

section \<open>The price service\<close>

text \<open>
  What one call of \<open>get_gold_prices\<close> meets: the four readings of the clock (in the
  first \<open>load_cache\<close>, in \<open>fetch_and_parse\<close>, in the \<open>load_cache\<close> of the handler and
  in \<open>save_cache\<close>), what the request to the source does, and what other requests do to
  the cache file while this one fetches, when \<open>cache_lock\<close> is not held (the identity
  when the call runs alone).
\<close>

record world =
  at_load :: int
  at_fetch :: int
  at_fallback :: int
  at_save :: int
  net :: fetch_outcome
  meanwhile :: "cache_file \<Rightarrow> cache_file"

datatype cache_status = Hit | Stale | Stored

text \<open>
  The content of the \<open>JSONResponse\<close>: the keys of the snapshot, the \<open>warning\<close> (which
  quotes the exception) when there is one, and the \<open>cache\<close> object.
\<close>

record response =
  payload :: snapshot
  warning :: "exn option"
  status :: cache_status
  cache_expires_at :: json_time

text \<open>
  The end of the handler of \<open>get_gold_prices\<close>: an \<open>HTTPException\<close> is raised again
  as it is, any other exception as an \<open>HTTPException\<close> with the status code 502.
\<close>

fun reraise :: "exn \<Rightarrow> exn" where
  "reraise (HTTPException code d) = HTTPException code d"
| "reraise e = HTTPException 502 (Failed_to_fetch_source e)"

text \<open>
  A loaded dict has the key \<open>expires_at\<close>, so it is not empty and \<open>if cached_data\<close>
  tests that \<open>load_cache\<close> did not return \<open>None\<close>. The result is the response or the
  exception raised, with the cache file the call leaves.
\<close>

definition get_gold_prices :: "bool \<Rightarrow> world \<Rightarrow> cache_file \<Rightarrow> (exn + response) \<times> cache_file" where
  "get_gold_prices force w file =
     (let file1 = (if force then clear_cache file else file)
      in case load_cache (at_load w) file1 of
           Some cached_data \<Rightarrow>
             (Inr \<lparr>payload = content cached_data, warning = None, status = Hit,
                   cache_expires_at = expires_at cached_data\<rparr>, file1)
         | None \<Rightarrow>
             (let file2 = meanwhile w file1
              in case fetch_and_parse (net w) (at_fetch w) of
                   Inl e \<Rightarrow>
                     (case load_cache (at_fallback w) file2 of
                        Some cached_data \<Rightarrow>
                          (Inr \<lparr>payload = content cached_data, warning = Some e,
                                status = Stale,
                                cache_expires_at = expires_at cached_data\<rparr>, file2)
                      | None \<Rightarrow> (Inl (reraise e), file2))
                 | Inr result \<Rightarrow>
                     (case save_cache result (at_save w) of
                        (expires, file3) \<Rightarrow>
                          (Inr \<lparr>payload = result, warning = None, status = Stored,
                                cache_expires_at = isoformat expires\<rparr>, file3))))"

section \<open>The price as the specification words it\<close>

text \<open>
  This definition follows the specification, not the program: the price of an entry is
  "the integer formed by concatenating all digit runs in its price text (or 0 if
  none)". It is compared with \<open>normalize_digits\<close> below.
\<close>

definition concatenated_digits_value :: "string \<Rightarrow> int" where
  "concatenated_digits_value text =
     (if list_ex is_digit text then decimal (filter is_digit text) else 0)"

section \<open>Sample documents, cache files and worlds\<close>

text \<open>
  \<open>scenario_a\<close> is the page of the specification's scenario A, with the header-like row
  before the data row, and \<open>scenario_a_swapped\<close> has the two rows in the other order.
\<close>

definition cell :: "string \<Rightarrow> node" where
  "cell s = Element ''td'' [] [Text s]"

definition row :: "string \<Rightarrow> string \<Rightarrow> node" where
  "row a b = Element ''tr'' [] [cell a, cell b]"

definition bordered_table :: "node list \<Rightarrow> node" where
  "bordered_table trs =
     Element ''table'' [''table'', ''table-bordered''] [Element ''tbody'' [] trs]"

definition weight_label :: string where
  "weight_label = ''Og'' @ [CHR 0x27] @ ''irligi''"

definition scenario_a :: "node list" where
  "scenario_a =
     [Element ''h1'' [] [Text ''Oltin''],
      bordered_table [row weight_label ''Narxi'', row ''5 gramm'' ''3 250 000'']]"

definition scenario_a_swapped :: "node list" where
  "scenario_a_swapped =
     [bordered_table [row ''5 gramm'' ''3 250 000'', row weight_label ''Narxi'']]"

definition zero_weight_doc :: "node list" where
  "zero_weight_doc = [bordered_table [row ''0 gramm'' ''100 000'']]"

definition unsorted_doc :: "node list" where
  "unsorted_doc =
     [bordered_table [row ''20 g'' ''12 000 000'', row ''5 g'' ''3 250 000'', row ''5 g'' ''-'']]"

definition no_table_doc :: "node list" where
  "no_table_doc = [Element ''table'' [''prices''] [Element ''tbody'' [] [row ''5 g'' ''1'']]]"

definition partial_doc :: "node list" where
  "partial_doc =
     [bordered_table
        [Element ''tr'' [] [], Element ''tr'' [] [cell ''10 g''], Element ''td'' [] [Text ''7'']]]"

definition sample_snapshot :: snapshot where
  "sample_snapshot =
     \<lparr>source = CBU_URL, last_updated = Some ''01.11.2025'',
      retrieved_at = isoformat (Aware 0),
      prices = [\<lparr>weight_g = 5, price_uzs = 3250000, price_str = ''3 250 000''\<rparr>]\<rparr>"

definition cached_until :: "int \<Rightarrow> cache_file" where
  "cached_until t = Json_object \<lparr>content = sample_snapshot, expires_at = Iso (Aware t)\<rparr>"

definition timeout_world :: world where
  "timeout_world =
     \<lparr>at_load = 200, at_fetch = 201, at_fallback = 202, at_save = 203,
      net = Raises ''timed out'', meanwhile = (\<lambda>file. file)\<rparr>"

definition good_world :: world where
  "good_world =
     \<lparr>at_load = 200, at_fetch = 201, at_fallback = 202, at_save = 203,
      net = Replies 200 scenario_a, meanwhile = (\<lambda>file. file)\<rparr>"

section \<open>Properties of the text functions and of the extractor\<close>

lemma list_all_takeWhile: "list_all P (takeWhile P xs)"
  by (induction xs) simp_all

lemma filter_takeWhile_dropWhile:
  "filter P xs = takeWhile P xs @ filter P (dropWhile P xs)"
  by (induction xs) simp_all

lemma concat_digit_runs: "concat (digit_runs s) = filter is_digit s"
proof (induction s rule: digit_runs.induct)
  case 1
  show ?case by simp
next
  case (2 c cs)
  show ?case
  proof (cases "is_digit c")
    case True
    have "concat (digit_runs (c # cs)) =
            c # takeWhile is_digit cs @ concat (digit_runs (dropWhile is_digit cs))"
      using True by simp
    also have "\<dots> = c # takeWhile is_digit cs @ filter is_digit (dropWhile is_digit cs)"
      using "2.IH"(1) [OF True] by simp
    also have "\<dots> = c # filter is_digit cs"
      using filter_takeWhile_dropWhile [of is_digit cs] by simp
    finally show ?thesis using True by simp
  next
    case False
    then show ?thesis using "2.IH"(2) [OF False] by simp
  qed
qed

lemma digit_runs_Nil_iff: "digit_runs s = [] \<longleftrightarrow> filter is_digit s = []"
proof (induction s rule: digit_runs.induct)
  case 1
  show ?case by simp
next
  case (2 c cs)
  show ?case
  proof (cases "is_digit c")
    case True
    then show ?thesis by simp
  next
    case False
    then show ?thesis using "2.IH"(2) [OF False] by simp
  qed
qed

lemma is_digit_nbsp: "\<not> is_digit nbsp"
  by (simp add: is_digit_def nbsp_def)

lemma is_digit_space: "\<not> is_digit (CHR '' '')"
  by (simp add: is_digit_def)

lemma filter_replace_nbsp: "filter is_digit (replace_nbsp s) = filter is_digit s"
  by (induction s) (simp_all add: replace_nbsp_def is_digit_nbsp is_digit_space)

lemma digit_val_nonneg: "is_digit c \<Longrightarrow> 0 \<le> digit_val c"
  by (simp add: is_digit_def digit_val_def)

lemma foldl_decimal_nonneg:
  "0 \<le> a \<Longrightarrow> list_all is_digit s \<Longrightarrow> 0 \<le> foldl (\<lambda>a c. 10 * a + digit_val c) a s"
proof (induction s arbitrary: a)
  case Nil
  then show ?case by simp
next
  case (Cons c s)
  from Cons.prems have "0 \<le> 10 * a + digit_val c"
    using digit_val_nonneg [of c] by simp
  with Cons.prems Cons.IH [of "10 * a + digit_val c"] show ?case by simp
qed

lemma decimal_nonneg: "list_all is_digit s \<Longrightarrow> 0 \<le> decimal s"
  unfolding decimal_def by (rule foldl_decimal_nonneg) simp_all

lemma search_digits_Some:
  "search_digits s = Some g \<Longrightarrow> g \<noteq> [] \<and> list_all is_digit g"
proof -
  assume a: "search_digits s = Some g"
  define r where "r = dropWhile (\<lambda>c. \<not> is_digit c) s"
  from a have r: "r \<noteq> []" and g: "g = takeWhile is_digit r"
    by (simp_all add: search_digits_def r_def Let_def split: if_splits)
  from r have "is_digit (hd r)"
    unfolding r_def using hd_dropWhile [of "\<lambda>c. \<not> is_digit c" s] by simp
  with r have "g \<noteq> []" unfolding g by (cases r) simp_all
  then show ?thesis unfolding g by (simp add: list_all_takeWhile)
qed

lemma py_int_digits: "s \<noteq> [] \<Longrightarrow> list_all is_digit s \<Longrightarrow> py_int s = Inr (decimal s)"
  by (simp add: py_int_def)

lemma list_all_filter_same: "list_all P (filter P xs)"
  by (induction xs) simp_all

lemma filter_Nil_list_ex: "filter P xs = [] \<longleftrightarrow> \<not> list_ex P xs"
  by (induction xs) simp_all

lemma normalize_digits_eq: "normalize_digits s = Inr (concatenated_digits_value s)"
proof (cases "list_ex is_digit s")
  case True
  then have ne: "filter is_digit s \<noteq> []"
    by (simp add: filter_Nil_list_ex)
  then have runs: "digit_runs (replace_nbsp s) \<noteq> []"
    by (simp add: digit_runs_Nil_iff filter_replace_nbsp)
  have "concat (digit_runs (replace_nbsp s)) = filter is_digit s"
    by (simp add: concat_digit_runs filter_replace_nbsp)
  moreover have "py_int (filter is_digit s) = Inr (decimal (filter is_digit s))"
    using ne by (rule py_int_digits) (rule list_all_filter_same)
  ultimately show ?thesis
    using runs True by (simp add: normalize_digits_def concatenated_digits_value_def)
next
  case False
  then have "digit_runs (replace_nbsp s) = []"
    by (simp add: digit_runs_Nil_iff filter_replace_nbsp filter_Nil_list_ex)
  with False show ?thesis
    by (simp add: normalize_digits_def concatenated_digits_value_def)
qed

lemma parse_row_cases:
  "parse_row tr = Inr None \<or>
   (\<exists>td0 rest g.
      find_all_td tr = td0 # rest \<and> search_digits (get_text td0) = Some g \<and>
      parse_row tr =
        Inr (Some \<lparr>weight_g = decimal g,
                   price_uzs = concatenated_digits_value
                     (case rest of [] \<Rightarrow> [] | td1 # x \<Rightarrow> get_text td1),
                   price_str = (case rest of [] \<Rightarrow> [] | td1 # x \<Rightarrow> get_text td1)\<rparr>))"
proof (cases "find_all_td tr")
  case Nil
  then show ?thesis by (simp add: parse_row_def)
next
  case (Cons td0 rest)
  show ?thesis
  proof (cases "is_header_text (get_text td0)")
    case True
    with Cons show ?thesis by (simp add: parse_row_def)
  next
    case False
    show ?thesis
    proof (cases "search_digits (get_text td0)")
      case None
      with Cons False show ?thesis by (simp add: parse_row_def)
    next
      case (Some g)
      then have "py_int g = Inr (decimal g)"
        using search_digits_Some [of "get_text td0" g] by (simp add: py_int_digits)
      with Cons False Some show ?thesis
        by (simp add: parse_row_def normalize_digits_eq Let_def)
    qed
  qed
qed

lemma parse_row_total: "\<exists>r. parse_row tr = Inr r"
  using parse_row_cases [of tr] by auto

lemma parse_row_Some:
  assumes "parse_row tr = Inr (Some e)"
  shows "0 \<le> weight_g e \<and> price_uzs e = concatenated_digits_value (price_str e)"
proof -
  from assms parse_row_cases [of tr] obtain td0 rest g where
    g: "search_digits (get_text td0) = Some g" and
    e: "e = \<lparr>weight_g = decimal g,
             price_uzs = concatenated_digits_value
               (case rest of [] \<Rightarrow> [] | td1 # x \<Rightarrow> get_text td1),
             price_str = (case rest of [] \<Rightarrow> [] | td1 # x \<Rightarrow> get_text td1)\<rparr>"
    by auto
  from g have "0 \<le> decimal g"
    using search_digits_Some [of "get_text td0" g] by (simp add: decimal_nonneg)
  then show ?thesis unfolding e by simp
qed

lemma collect_rows_total: "\<exists>rows. collect_rows trs = Inr rows"
proof (induction trs)
  case Nil
  show ?case by simp
next
  case (Cons tr trs)
  from parse_row_total [of tr] obtain r where "parse_row tr = Inr r" ..
  moreover from Cons.IH obtain rows where "collect_rows trs = Inr rows" ..
  ultimately show ?case by simp
qed

lemma collect_rows_entries:
  "collect_rows trs = Inr rows \<Longrightarrow> e \<in> set rows \<Longrightarrow> \<exists>tr \<in> set trs. parse_row tr = Inr (Some e)"
proof (induction trs arbitrary: rows)
  case Nil
  then show ?case by simp
next
  case (Cons tr trs)
  from parse_row_total [of tr] obtain r where r: "parse_row tr = Inr r" ..
  from collect_rows_total [of trs] obtain rest where rest: "collect_rows trs = Inr rest" ..
  from Cons.prems(1) r rest
  have rows: "rows = (case r of None \<Rightarrow> rest | Some entry \<Rightarrow> entry # rest)"
    by simp
  show ?case
  proof (cases "e \<in> set rest")
    case True
    with Cons.IH [OF rest] show ?thesis by auto
  next
    case False
    with Cons.prems(2) rows have "r = Some e"
      by (cases r) auto
    with r show ?thesis by simp
  qed
qed

lemma first_some_None: "first_some a b = None \<longleftrightarrow> a = None \<and> b = None"
  by (cases a) (simp_all add: first_some_def)

lemma parse_table_None:
  "parse_table doc = Inr None \<longleftrightarrow> select_one doc = None \<and> find_table doc = None"
proof (cases "first_some (select_one doc) (find_table doc)")
  case None
  then have "parse_table doc = Inr None"
    by (simp add: parse_table_def)
  moreover from None have "select_one doc = None \<and> find_table doc = None"
    by (simp add: first_some_None)
  ultimately show ?thesis by simp
next
  case (Some table)
  from collect_rows_total [of "select_rows table"] obtain rows
    where "collect_rows (select_rows table) = Inr rows" ..
  with Some have "parse_table doc \<noteq> Inr None"
    by (simp add: parse_table_def)
  moreover from Some have "\<not> (select_one doc = None \<and> find_table doc = None)"
    using first_some_None [of "select_one doc" "find_table doc"] by simp
  ultimately show ?thesis by simp
qed

lemma parse_table_Some:
  assumes "parse_table doc = Inr (Some (lu, rows))"
  shows "\<exists>table src.
           first_some (select_one doc) (find_table doc) = Some table \<and>
           lu = first_date (all_strings (elem table)) \<and>
           collect_rows (select_rows table) = Inr src \<and>
           rows = sort_key weight_g src"
proof (cases "first_some (select_one doc) (find_table doc)")
  case None
  with assms show ?thesis by (simp add: parse_table_def)
next
  case (Some table)
  from collect_rows_total [of "select_rows table"] obtain src
    where src: "collect_rows (select_rows table) = Inr src" ..
  with Some assms show ?thesis by (simp add: parse_table_def)
qed

lemma parse_table_total: "\<exists>r. parse_table doc = Inr r"
proof (cases "first_some (select_one doc) (find_table doc)")
  case None
  then show ?thesis by (simp add: parse_table_def)
next
  case (Some table)
  from collect_rows_total [of "select_rows table"] obtain src
    where "collect_rows (select_rows table) = Inr src" ..
  with Some show ?thesis by (simp add: parse_table_def)
qed

lemma load_cache_Some_iff:
  "load_cache t file = Some d \<longleftrightarrow>
     file = Json_object d \<and> (\<exists>x. expires_at d = Iso (Aware x) \<and> t < x)"
proof (cases "file")
  case No_file
  then show ?thesis by (simp add: load_cache_def)
next
  case Not_json
  then show ?thesis by (simp add: load_cache_def read_cache_def)
next
  case Not_object
  then show ?thesis by (simp add: load_cache_def read_cache_def)
next
  case (Json_object data)
  show ?thesis
  proof (cases "expires_at data")
    case No_value
    with Json_object show ?thesis by (auto simp: load_cache_def read_cache_def)
  next
    case Not_iso
    with Json_object show ?thesis by (auto simp: load_cache_def read_cache_def)
  next
    case (Iso dt)
    with Json_object show ?thesis
      by (cases dt) (auto simp: load_cache_def read_cache_def)
  qed
qed

lemma load_cache_None_mono:
  assumes "load_cache t file = None" and "t \<le> t'"
  shows "load_cache t' file = None"
proof (rule ccontr)
  assume "load_cache t' file \<noteq> None"
  then obtain d where "load_cache t' file = Some d" by auto
  then obtain x where f: "file = Json_object d" and x: "expires_at d = Iso (Aware x)" and "t' < x"
    by (auto simp: load_cache_Some_iff)
  with assms(2) have "t < x" by simp
  with f x have "load_cache t file = Some d"
    by (simp add: load_cache_Some_iff)
  with assms(1) show False by simp
qed

lemma load_cache_clear_cache: "load_cache t (clear_cache file) = None"
  by (simp add: clear_cache_def load_cache_def)

lemma fetch_and_parse_failure:
  assumes "fetch_and_parse outcome t = Inl e"
  shows "(\<exists>msg. outcome = Raises msg \<and> e = RequestException msg) \<or>
         (\<exists>code doc. outcome = Replies code doc \<and> code \<noteq> 200 \<and>
            e = HTTPException 502 (Source_returned_status code)) \<or>
         (\<exists>doc. outcome = Replies 200 doc \<and> parse_table doc = Inr None \<and>
            e = HTTPException 500 Could_not_find_gold_table)"
proof (cases outcome)
  case (Raises msg)
  with assms show ?thesis by (simp add: fetch_and_parse_def)
next
  case (Replies code doc)
  show ?thesis
  proof (cases "code = 200")
    case False
    with Replies assms show ?thesis by (simp add: fetch_and_parse_def)
  next
    case True
    from parse_table_total [of doc] obtain r where r: "parse_table doc = Inr r" ..
    show ?thesis
    proof (cases r)
      case None
      with r True Replies assms show ?thesis by (simp add: fetch_and_parse_def)
    next
      case (Some found)
      with r True Replies assms show ?thesis
        by (cases found) (simp add: fetch_and_parse_def)
    qed
  qed
qed

lemma get_gold_prices_hit:
  "load_cache (at_load w) (if force then clear_cache file else file) = Some d \<Longrightarrow>
   get_gold_prices force w file =
     (Inr \<lparr>payload = content d, warning = None, status = Hit,
           cache_expires_at = expires_at d\<rparr>,
      if force then clear_cache file else file)"
  by (simp add: get_gold_prices_def Let_def)

lemma get_gold_prices_failure:
  "load_cache (at_load w) (if force then clear_cache file else file) = None \<Longrightarrow>
   fetch_and_parse (net w) (at_fetch w) = Inl e \<Longrightarrow>
   get_gold_prices force w file =
     (case load_cache (at_fallback w) (meanwhile w (if force then clear_cache file else file)) of
        Some d \<Rightarrow>
          Inr \<lparr>payload = content d, warning = Some e, status = Stale,
               cache_expires_at = expires_at d\<rparr>
      | None \<Rightarrow> Inl (reraise e),
      meanwhile w (if force then clear_cache file else file))"
  by (simp add: get_gold_prices_def Let_def split: option.split)

lemma get_gold_prices_stored:
  "load_cache (at_load w) (if force then clear_cache file else file) = None \<Longrightarrow>
   fetch_and_parse (net w) (at_fetch w) = Inr result \<Longrightarrow>
   get_gold_prices force w file =
     (Inr \<lparr>payload = result, warning = None, status = Stored,
           cache_expires_at = isoformat (fst (save_cache result (at_save w)))\<rparr>,
      snd (save_cache result (at_save w)))"
  by (simp add: get_gold_prices_def Let_def split: prod.split)

section \<open>The extractor on the page of scenario A\<close>

text \<open>
  C8. On the page of scenario A (a table with the header-like row \<open>Og'irligi | Narxi\<close>
  and the body row \<open>5 gramm | 3 250 000\<close>, in either order) \<open>parse_table\<close> returns
  exactly one entry, with weight 5, price 3250000 and the price text \<open>3 250 000\<close>; the
  header-like row is skipped because its first cell matches the keyword pattern, which
  ignores case.
\<close>

theorem scenario_a_one_entry:
  "parse_table scenario_a =
     Inr (Some (None, [\<lparr>weight_g = 5, price_uzs = 3250000, price_str = ''3 250 000''\<rparr>])) \<and>
   parse_table scenario_a_swapped =
     Inr (Some (None, [\<lparr>weight_g = 5, price_uzs = 3250000, price_str = ''3 250 000''\<rparr>])) \<and>
   is_header_text (get_text (cell weight_label)) \<and>
   parse_row (row weight_label ''Narxi'') = Inr None \<and>
   parse_row (row ''5 gramm'' ''3 250 000'') =
     Inr (Some \<lparr>weight_g = 5, price_uzs = 3250000, price_str = ''3 250 000''\<rparr>)"
  by code_simp

theorem scenario_a_one_entry_witness:
  "map weight_g (case parse_table scenario_a of Inr (Some (d, rows)) \<Rightarrow> rows | _ \<Rightarrow> []) = [5]"
  using scenario_a_one_entry by simp

end
